theory Spec2Isabelle
  imports
    Complex_Main
    "HOL-Library.AList"
    "HOL-Library.Char_ord"
    "HOL-Library.List_Lexorder"
begin

section \<open>Polyglot-CPP: the program lifecycle manager of \<open>main.py\<close>\<close>

text \<open>
  The module keeps a dictionary \<open>cpp_files\<close> of compiled programs in memory, mirrors it
  in the file \<open>cpp_files.json\<close>, keeps one source and one executable file per program
  under \<open>cpps/\<close>, and calls three external processes (clang++, the compiled program,
  gprof). The model threads one \<open>world\<close> value through every function: the dictionary,
  the store file, the set of paths that exist, and the sequence of effects performed so
  far (library calls that touch the outside, and log records), in the order the code
  performs them.

  What the code reads from its surroundings is an explicit argument: the clock, the
  identifier minted by \<open>uuid.uuid4()\<close>, and what each external process does.

  Python's \<open>str\<close> is modelled by \<open>string\<close>; \<open><\<close> on strings is the lexicographic
  order by character code, with a proper prefix smaller, as Python's is.
\<close>

subsection \<open>Data\<close>

text \<open>One value of \<open>cpp_files\<close>: the dictionary literal of lines 109 to 113.\<close>

record file_info =
  output_path :: string
  source_path :: string
  expiration :: string

text \<open>
  A Python \<open>dict\<close> keeps its keys in insertion order and \<open>cleanup_expired_files\<close>
  iterates over it, so the dictionary is an association list. A \<open>dict\<close> has every key
  once: the lists that stand for one have distinct keys.
\<close>

type_synonym store = "(string \<times> file_info) list"


text \<open>
  The file \<open>cpp_files.json\<close>: missing, present with text that \<open>json.load\<close> rejects, or
  present with a serialised dictionary.
\<close>

datatype store_file = Missing | Malformed | Json store

datatype level = INFO | WARNING | ERROR

text \<open>
  The effects of the module, one constructor per library call that reaches outside the
  process. \<open>Remove\<close> records the call of \<open>os.remove\<close>, whether it succeeds or raises.
\<close>

datatype effect =
    Load
  | Save
  | Remove string
  | Makedirs string
  | Write string string
  | Compile "string list"
  | Exec "string list" string
  | Gprof "string list"
  | Log level string

record world =
  cpp_files :: store
  store_file :: store_file
  files :: "string set"
  trace :: "effect list"

text \<open>
  The exceptions that leave a library call. \<open>os.remove\<close> raises \<open>FileNotFoundError\<close> on
  a path that does not exist, and another \<open>OSError\<close> on a path that exists and that the
  filesystem refuses to delete (a directory, a missing permission), which then stays in
  place; \<open>PermissionError\<close> stands for all of these. \<open>subprocess.run\<close> with \<open>text=True\<close>
  raises \<open>UnicodeDecodeError\<close>, with the message given, when the captured output is not
  text in the encoding.
\<close>

datatype exn =
    FileNotFoundError string
  | PermissionError string
  | UnicodeDecodeError string

text \<open>
  \<open>str(e)\<close>, as the log record of line 76 prints it (for a path that \<open>repr\<close> shows
  between single quotes and without escapes).
\<close>

definition str_exn :: "exn \<Rightarrow> string" where
  "str_exn e =
     (case e of
        FileNotFoundError p \<Rightarrow>
          ''[Errno 2] No such file or directory: '' @ [CHR 0x27] @ p @ [CHR 0x27]
      | PermissionError p \<Rightarrow>
          ''[Errno 13] Permission denied: '' @ [CHR 0x27] @ p @ [CHR 0x27]
      | UnicodeDecodeError msg \<Rightarrow> msg)"

subsection \<open>Library calls\<close>

definition emit :: "effect \<Rightarrow> world \<Rightarrow> world" where
  "emit e w = w\<lparr>trace := trace w @ [e]\<rparr>"

definition logging :: "level \<Rightarrow> string \<Rightarrow> world \<Rightarrow> world" where
  "logging l msg w = emit (Log l msg) w"

text \<open>
  \<open>os.remove\<close> on a filesystem that refuses to delete the paths in \<open>refused\<close>: a missing
  path raises \<open>FileNotFoundError\<close>, a refused one raises and stays, any other is removed.
  The reaper, which catches every \<open>OSError\<close> (line 75), is modelled on such a filesystem.
\<close>

definition os_remove_on :: "string set \<Rightarrow> string \<Rightarrow> world \<Rightarrow> (exn + unit) \<times> world" where
  "os_remove_on refused p w =
     (if p \<notin> files w then (Inl (FileNotFoundError p), emit (Remove p) w)
      else if p \<in> refused then (Inl (PermissionError p), emit (Remove p) w)
      else (Inr (), (emit (Remove p) w)\<lparr>files := files w - {p}\<rparr>))"

text \<open>
  \<open>os.remove\<close> where no handler for \<open>OSError\<close> surrounds it (lines 105, 136, 137 and
  162), on a filesystem that deletes every path that exists: the only failure is the
  missing path.
\<close>

definition os_remove :: "string \<Rightarrow> world \<Rightarrow> (exn + unit) \<times> world" where
  "os_remove p w =
     (if p \<in> files w then (Inr (), (emit (Remove p) w)\<lparr>files := files w - {p}\<rparr>)
      else (Inl (FileNotFoundError p), emit (Remove p) w))"

definition os_path_exists :: "string \<Rightarrow> world \<Rightarrow> bool" where
  "os_path_exists p w = (p \<in> files w)"

text \<open>\<open>os.path.join\<close> of two components (posixpath).\<close>

definition os_path_join :: "string \<Rightarrow> string \<Rightarrow> string" where
  "os_path_join a b =
     (if b \<noteq> [] \<and> hd b = CHR ''/'' then b
      else if a = [] \<or> last a = CHR ''/'' then a @ b
      else a @ ''/'' @ b)"

subsection \<open>The artifact store: lines 48 to 61\<close>

definition load_cpp_files :: "world \<Rightarrow> world" where
  "load_cpp_files w =
     (emit Load w)\<lparr>cpp_files := (case store_file w of Json d \<Rightarrow> d | _ \<Rightarrow> [])\<rparr>"

definition save_cpp_files :: "world \<Rightarrow> world" where
  "save_cpp_files w = (emit Save w)\<lparr>store_file := Json (cpp_files w)\<rparr>"

subsection \<open>The reaper: lines 63 to 78\<close>

text \<open>
  The body of the loop of lines 69 to 76 for one \<open>file_id\<close>. Both calls of \<open>os.remove\<close>
  are in one \<open>try\<close>: when the first raises, the second is not made. \<open>cpp_files.pop\<close>
  raises \<open>KeyError\<close> on a missing key; the loop only pops keys it has just read from
  \<open>cpp_files\<close>, each once, so that branch is not reached from \<open>cleanup_expired_files\<close>
  on a well-formed store and leaves the world as it is.
\<close>

text \<open>The message of line 76, \<open>f"Error cleaning up file {file_id}: {e}"\<close>.\<close>

definition error_message :: "string \<Rightarrow> exn \<Rightarrow> string" where
  "error_message file_id e = ''Error cleaning up file '' @ file_id @ '': '' @ str_exn e"

definition cleanup_one :: "string set \<Rightarrow> string \<Rightarrow> world \<Rightarrow> world" where
  "cleanup_one refused file_id w =
     (case map_of (cpp_files w) file_id of
        None \<Rightarrow> w
      | Some info \<Rightarrow>
          (let w1 = w\<lparr>cpp_files := AList.delete file_id (cpp_files w)\<rparr> in
           case os_remove_on refused (source_path info) w1 of
             (Inl e, w2) \<Rightarrow> logging ERROR (error_message file_id e) w2
           | (Inr _, w2) \<Rightarrow>
               (case os_remove_on refused (output_path info) w2 of
                  (Inl e, w3) \<Rightarrow> logging ERROR (error_message file_id e) w3
                | (Inr _, w3) \<Rightarrow>
                    logging INFO (''Cleaned up expired file: '' @ file_id) w3)))"

text \<open>\<open>now\<close> is \<open>datetime.now().isoformat()\<close> of line 64.\<close>

definition to_delete :: "string \<Rightarrow> store \<Rightarrow> string list" where
  "to_delete now d = map fst (filter (\<lambda>(file_id, info). expiration info < now) d)"

text \<open>\<open>refused\<close> is what the filesystem refuses to delete while the sweep runs.\<close>

definition cleanup_expired_files :: "string set \<Rightarrow> string \<Rightarrow> world \<Rightarrow> world" where
  "cleanup_expired_files refused now w =
     (let ks = to_delete now (cpp_files w);
          w1 = fold (cleanup_one refused) ks w
      in if ks \<noteq> [] then save_cpp_files w1 else w1)"

subsection \<open>Strings: \<open>str.splitlines\<close> and \<open>str.replace\<close>\<close>

text \<open>
  The line boundaries of \<open>str.splitlines\<close> among the characters with codes below 256:
  line feed, vertical tab, form feed, carriage return, the three separators 0x1C to
  0x1E and NEL (0x85). A carriage return followed by a line feed is one boundary.
\<close>

definition linebreak :: "char \<Rightarrow> bool" where
  "linebreak c = (c \<in> {CHR 0x0A, CHR 0x0B, CHR 0x0C, CHR 0x0D, CHR 0x1C, CHR 0x1D, CHR 0x1E, CHR 0x85})"

text \<open>\<open>splitlines_from cur s\<close>: the lines of \<open>s\<close>, the first one prefixed by \<open>cur\<close>.\<close>

fun splitlines_from :: "string \<Rightarrow> string \<Rightarrow> string list" where
  "splitlines_from cur [] = (if cur = [] then [] else [cur])"
| "splitlines_from cur [c] = [cur @ [c]]"
| "splitlines_from cur (c # d # cs) =
     (if c = CHR 0x0D \<and> d = CHR 0x0A then (cur @ [c, d]) # splitlines_from [] cs
      else if linebreak c then (cur @ [c]) # splitlines_from [] (d # cs)
      else splitlines_from (cur @ [c]) (d # cs))"

text \<open>\<open>s.splitlines(keepends=True)\<close>.\<close>

definition splitlines :: "string \<Rightarrow> string list" where
  "splitlines s = splitlines_from [] s"

text \<open>
  \<open>s.replace(old, new)\<close>: the occurrences of \<open>old\<close> are found from the left and do not
  overlap. With an empty \<open>old\<close>, \<open>new\<close> is put before every character and at the end.
\<close>

fun str_replace :: "string \<Rightarrow> string \<Rightarrow> string \<Rightarrow> string" where
  "str_replace old new [] = (if old = [] then new else [])"
| "str_replace old new (c # cs) =
     (if old = [] then new @ c # str_replace old new cs
      else if take (length old) (c # cs) = old
        then new @ str_replace old new (drop (length old - 1) cs)
      else c # str_replace old new cs)"

subsection \<open>External processes\<close>

text \<open>What \<open>subprocess.run\<close> returns with \<open>capture_output=True, text=True\<close>.\<close>

record completed_process =
  returncode :: int
  stdout :: string
  stderr :: string

text \<open>
  What \<open>subprocess.run\<close> of the compiled program does, lines 143 to 149. It returns a
  \<open>CompletedProcess\<close>; or the child runs past the timeout, is killed, and
  \<open>TimeoutExpired\<close> is raised, an exception that carries what had been captured of the
  two streams before the kill (\<open>None\<close> when nothing was); or the child completes within
  the timeout but what it wrote is not text in the encoding, and \<open>UnicodeDecodeError\<close>
  is raised with the message given; or the program cannot be started, and the
  \<open>OSError\<close> given is raised. gprof is taken to start and to report, as its contract in
  section 6 of the spec says.
\<close>

datatype run_outcome =
    Completed completed_process
  | TimeoutExpired "string option" "string option"
  | Undecodable string
  | NotStarted exn

text \<open>
  Modelled from the spec: the external compiler (section 6, "success = zero exit status
  and a usable executable at the output path; failure = nonzero exit status with
  diagnostic text on its error stream"). \<open>run_clang r out src\<close> is the call of lines 97
  to 101 when the compiler's result is \<open>r\<close>: the executable appears exactly on exit
  status zero.
\<close>

definition run_clang :: "completed_process \<Rightarrow> string \<Rightarrow> string \<Rightarrow> world \<Rightarrow> world" where
  "run_clang r out src w =
     (emit (Compile [''clang++'', ''-pg'', ''-fsanitize=address'', ''-o'', out, src]) w)
       \<lparr>files := (if returncode r = 0 then insert out (files w) else files w)\<rparr>"

text \<open>
  Modelled from the spec: the compiled artifact (section 4.4, step 6, "the profiling
  side-channel data file produced by the run (a fixed,
  process-working-directory-relative file)"). \<open>run_artifact leaves_gmon out input\<close> is the
  call of lines 143 to 149 as far as the world sees it: of the files the model tracks,
  the program under test touches only \<open>gmon.out\<close>, which it leaves behind when
  \<open>leaves_gmon\<close> holds.
\<close>

definition run_artifact :: "bool \<Rightarrow> string \<Rightarrow> string \<Rightarrow> world \<Rightarrow> world" where
  "run_artifact leaves_gmon out input w =
     (emit (Exec [out] input) w)
       \<lparr>files := (if leaves_gmon then insert ''gmon.out'' (files w) else files w)\<rparr>"

text \<open>
  Modelled from the spec: the profiler (section 6, "invoked with the executable path and
  the profiling side-channel file produced by the most recent run in the current working
  directory; produces a textual report on its output stream"). \<open>run_gprof out\<close> is the
  call of lines 154 to 158 as far as the world sees it: gprof starts, reports, and changes
  no file.
\<close>

definition run_gprof :: "string \<Rightarrow> world \<Rightarrow> world" where
  "run_gprof out w = emit (Gprof [''gprof'', out, ''gmon.out'']) w"

subsection \<open>Results\<close>

text \<open>
  The dictionaries the three operations return.
  \<open>CreateFailure e\<close> is \<open>{"success": False, "error": e}\<close> and \<open>Created i\<close> is
  \<open>{"success": True, "file_id": i}\<close>.
  \<open>RunFailure e\<close> is \<open>{"success": False, "error": e}\<close> and \<open>Ran out err d t p\<close> is
  \<open>{"success": True, "stdout": out, "stderr": err, "diff": d, "run_time": t,
  "profiling_report": p}\<close>, with \<open>None\<close> for Python's \<open>None\<close>; \<open>diff\<close> and
  \<open>profiling_report\<close> read the two keys of that name.
  \<open>create_and_run_program\<close> returns the dictionary of the failed build as it is
  (\<open>OnlyCreate\<close>), or \<open>{"create_result": c, "run_result": r}\<close> (\<open>Both c r\<close>).
\<close>

datatype create_response = CreateFailure string | Created string

datatype run_response =
    RunFailure string
  | Ran string string (diff: "string option") real (profiling_report: string)

datatype combined_response = OnlyCreate create_response | Both create_response run_response

subsection \<open>The build service: lines 82 to 116\<close>

text \<open>
  What one call reads from outside: the identifier \<open>str(uuid.uuid4())\<close>, the directory
  \<open>os.path.dirname(__file__)\<close>, the compiler's result, and
  \<open>(datetime.now() + timedelta(days=1)).isoformat()\<close>.
\<close>

record create_env =
  uuid4 :: string
  dirname_file :: string
  compile_result :: completed_process
  now_plus_1day :: string

text \<open>The two paths of lines 88 to 92 for a call.\<close>

definition new_source_path :: "create_env \<Rightarrow> string" where
  "new_source_path env =
     os_path_join (os_path_join (dirname_file env) ''cpps'') (uuid4 env @ ''.cpp'')"

definition new_output_path :: "create_env \<Rightarrow> string" where
  "new_output_path env = os_path_join (os_path_join (dirname_file env) ''cpps'') (uuid4 env)"

definition create_program ::
  "create_env \<Rightarrow> string \<Rightarrow> world \<Rightarrow> (exn + create_response) \<times> world" where
  "create_program env content w =
     (let file_id = uuid4 env;
          cpps_dir = os_path_join (dirname_file env) ''cpps'';
          w1 = emit (Makedirs cpps_dir) w;
          src = new_source_path env;
          out = new_output_path env;
          w2 = (emit (Write src content) w1)\<lparr>files := insert src (files w1)\<rparr>;
          w3 = run_clang (compile_result env) out src w2
      in if returncode (compile_result env) \<noteq> 0 then
           (let w4 = logging ERROR
                  (''Compilation failed for '' @ file_id @ '': '' @ stderr (compile_result env)) w3
            in case os_remove src w4 of
                 (Inl e, w5) \<Rightarrow> (Inl e, w5)
               | (Inr _, w5) \<Rightarrow> (Inr (CreateFailure (stderr (compile_result env))), w5))
         else
           (let w4 = w3\<lparr>cpp_files := AList.update file_id
                        \<lparr>output_path = out, source_path = src, expiration = now_plus_1day env\<rparr>
                        (cpp_files w3)\<rparr>;
                w5 = save_cpp_files w4;
                w6 = logging INFO
                  (''Successfully compiled and stored program with file_id: '' @ file_id) w5
            in (Inr (Created file_id), w6)))"

subsection \<open>The execution service: lines 122 to 187\<close>

text \<open>
  What one call reads from outside: \<open>datetime.now().isoformat()\<close> of line 133, what the
  program under test does (its outcome, and whether it leaves \<open>gmon.out\<close>), the result of
  gprof, and \<open>(end_time - start_time).total_seconds()\<close> of line 151.
\<close>

record run_env =
  now :: string
  run_result :: run_outcome
  leaves_gmon :: bool
  gprof_result :: completed_process
  total_seconds :: real

text \<open>
  \<open>difflib.unified_diff\<close> is a parameter \<open>unified_diff a b fromfile tofile\<close>, the list
  of lines it yields: the operation is defined for any line-diff function.
\<close>

type_synonym differ = "string list \<Rightarrow> string list \<Rightarrow> string \<Rightarrow> string \<Rightarrow> string list"

definition run_program ::
  "differ \<Rightarrow> run_env \<Rightarrow> string \<Rightarrow> string \<Rightarrow> string option \<Rightarrow> world
     \<Rightarrow> (exn + run_response) \<times> world" where
  "run_program unified_diff env file_id custom_input expected_output w0 =
     (let w = load_cpp_files w0 in
      case map_of (cpp_files w) file_id of
        None \<Rightarrow>
          (Inr (RunFailure ''File ID not found.''),
           logging WARNING (''Attempted to run non-existent file_id: '' @ file_id) w)
      | Some file_info \<Rightarrow>
          if now env > expiration file_info then
            (let w1 = logging INFO (''File ID '' @ file_id @ '' has expired. Cleaning up.'') w;
                 w2 = w1\<lparr>cpp_files := AList.delete file_id (cpp_files w1)\<rparr>
             in case os_remove (source_path file_info) w2 of
                  (Inl e, w3) \<Rightarrow> (Inl e, w3)
                | (Inr _, w3) \<Rightarrow>
                    (case os_remove (output_path file_info) w3 of
                       (Inl e, w4) \<Rightarrow> (Inl e, w4)
                     | (Inr _, w4) \<Rightarrow>
                         (Inr (RunFailure ''File ID has expired.''), save_cpp_files w4)))
          else
            (let w1 = run_artifact (leaves_gmon env) (output_path file_info) custom_input w
             in case run_result env of
                  TimeoutExpired partial_out partial_err \<Rightarrow>
                    (Inr (RunFailure ''Execution timed out after 10 seconds.''), w1)
                | Undecodable msg \<Rightarrow> (Inl (UnicodeDecodeError msg), w1)
                | NotStarted e \<Rightarrow>
                    (Inl e, emit (Exec [output_path file_info] custom_input) w)
                | Completed rr \<Rightarrow>
                    (let w2 = run_gprof (output_path file_info) w1
                     in case (if os_path_exists ''gmon.out'' w2
                              then os_remove ''gmon.out'' w2 else (Inr (), w2)) of
                          (Inl e, w3) \<Rightarrow> (Inl e, w3)
                        | (Inr _, w3) \<Rightarrow>
                            (let diff_result =
                                   (case expected_output of
                                      None \<Rightarrow> None
                                    | Some eo \<Rightarrow>
                                        Some (concat (unified_diff (splitlines eo)
                                          (splitlines (stdout rr))
                                          ''expected_output'' ''actual_output'')));
                                 profiling_report = stdout (gprof_result env);
                                 profiling_report' =
                                   take 500
                                     (str_replace ''  '' '' ''
                                       (str_replace ''  '' '' ''
                                         (str_replace ''  '' '' ''
                                           (str_replace ''  '' '' '' profiling_report))))
                             in (Inr (Ran (stdout rr) (stderr rr) diff_result (total_seconds env)
                                        profiling_report'), w3)))))"

subsection \<open>The composite operation: lines 193 to 213\<close>

definition create_and_run_program ::
  "differ \<Rightarrow> create_env \<Rightarrow> run_env \<Rightarrow> string \<Rightarrow> string \<Rightarrow> string option \<Rightarrow> world
     \<Rightarrow> (exn + combined_response) \<times> world" where
  "create_and_run_program unified_diff cenv renv content custom_input expected_output w =
     (case create_program cenv content w of
        (Inl e, w1) \<Rightarrow> (Inl e, w1)
      | (Inr create_response, w1) \<Rightarrow>
          (case create_response of
             CreateFailure err \<Rightarrow> (Inr (OnlyCreate create_response), w1)
           | Created file_id \<Rightarrow>
               (case run_program unified_diff renv file_id custom_input expected_output w1 of
                  (Inl e, w2) \<Rightarrow> (Inl e, w2)
                | (Inr run_response, w2) \<Rightarrow>
                    (Inr (Both create_response run_response), w2))))"

text \<open>The lifespan hook of lines 16 to 20, run once at startup.\<close>

definition lifespan :: "string set \<Rightarrow> string \<Rightarrow> world \<Rightarrow> world" where
  "lifespan refused now0 w = cleanup_expired_files refused now0 (load_cpp_files w)"

subsection \<open>Example inputs\<close>

text \<open>
  A store with two programs, in memory as on disk: \<open>a\<close> valid until the next morning
  and \<open>b\<close> expired three hours before the clock of the examples, with all four backing
  files; and the same with the source file of \<open>b\<close> gone.
\<close>

definition ex_fresh :: file_info where
  "ex_fresh = \<lparr>output_path = ''/srv/cpps/a'', source_path = ''/srv/cpps/a.cpp'',
     expiration = ''2026-11-04T09:00:00''\<rparr>"

definition ex_stale :: file_info where
  "ex_stale = \<lparr>output_path = ''/srv/cpps/b'', source_path = ''/srv/cpps/b.cpp'',
     expiration = ''2026-11-03T09:00:00''\<rparr>"

definition ex_world :: world where
  "ex_world = \<lparr>cpp_files = [(''a'', ex_fresh), (''b'', ex_stale)],
     store_file = Json [(''a'', ex_fresh), (''b'', ex_stale)],
     files = {''/srv/cpps/a'', ''/srv/cpps/a.cpp'', ''/srv/cpps/b'', ''/srv/cpps/b.cpp''},
     trace = []\<rparr>"

definition ex_world_orphan :: world where
  "ex_world_orphan = ex_world\<lparr>files := {''/srv/cpps/a'', ''/srv/cpps/a.cpp'', ''/srv/cpps/b''}\<rparr>"

text \<open>
  A run at noon whose program prints two lines and exits with status 1, and one whose
  program is killed at the timeout after printing one character.
\<close>

definition ex_run_env :: run_env where
  "ex_run_env = \<lparr>now = ''2026-11-03T12:00:00'',
     run_result = Completed \<lparr>returncode = 1, stdout = ''4\<newline>2\<newline>'', stderr = ''boom''\<rparr>,
     leaves_gmon = True,
     gprof_result = \<lparr>returncode = 0, stdout = ''Flat   profile:'', stderr = []\<rparr>,
     total_seconds = 1 / 4\<rparr>"

definition ex_timeout_env :: run_env where
  "ex_timeout_env = ex_run_env\<lparr>run_result := TimeoutExpired (Some ''4'') None\<rparr>"

text \<open>
  A run at noon whose program exits with status 0 within the timeout after writing the
  single byte 0xff, which is not text in UTF-8.
\<close>

definition ex_undecodable_env :: run_env where
  "ex_undecodable_env = ex_run_env\<lparr>run_result :=
     Undecodable '''utf-8' codec can't decode byte 0xff in position 0: invalid start byte''\<rparr>"

text \<open>
  A line-diff function for the examples: nothing for equal inputs, otherwise the two
  header lines and every line of both sides.
\<close>

definition ex_differ :: differ where
  "ex_differ a b fromfile tofile =
     (if a = b then []
      else [''--- '' @ fromfile @ ''\<newline>'', ''+++ '' @ tofile @ ''\<newline>'']
           @ map ((#) CHR ''-'') a @ map ((#) CHR ''+'') b)"

text \<open>A build whose compiler reports an error, and one whose compiler succeeds.\<close>

definition ex_create_env :: create_env where
  "ex_create_env = \<lparr>uuid4 = ''c'', dirname_file = ''/srv'',
     compile_result = \<lparr>returncode = 1, stdout = [], stderr = ''c.cpp:1:1: error''\<rparr>,
     now_plus_1day = ''2026-11-04T12:00:00''\<rparr>"

definition ex_create_env_ok :: create_env where
  "ex_create_env_ok = ex_create_env\<lparr>compile_result := \<lparr>returncode = 0, stdout = [], stderr = []\<rparr>\<rparr>"

section \<open>Properties\<close>

subsection \<open>The reaper, record by record\<close>

lemma cleanup_one_absent:
  "map_of (cpp_files w) k = None \<Longrightarrow> cleanup_one refused k w = w"
  by (simp add: cleanup_one_def)

lemma cleanup_one_cases:
  assumes "map_of (cpp_files w) k = Some i"
  shows "cleanup_one refused k w =
    (if source_path i \<notin> files w then
       w\<lparr>cpp_files := AList.delete k (cpp_files w),
         trace := trace w @ [Remove (source_path i),
                    Log ERROR (error_message k (FileNotFoundError (source_path i)))]\<rparr>
     else if source_path i \<in> refused then
       w\<lparr>cpp_files := AList.delete k (cpp_files w),
         trace := trace w @ [Remove (source_path i),
                    Log ERROR (error_message k (PermissionError (source_path i)))]\<rparr>
     else if output_path i \<notin> files w - {source_path i} then
       w\<lparr>cpp_files := AList.delete k (cpp_files w),
         files := files w - {source_path i},
         trace := trace w @ [Remove (source_path i), Remove (output_path i),
                    Log ERROR (error_message k (FileNotFoundError (output_path i)))]\<rparr>
     else if output_path i \<in> refused then
       w\<lparr>cpp_files := AList.delete k (cpp_files w),
         files := files w - {source_path i},
         trace := trace w @ [Remove (source_path i), Remove (output_path i),
                    Log ERROR (error_message k (PermissionError (output_path i)))]\<rparr>
     else
       w\<lparr>cpp_files := AList.delete k (cpp_files w),
         files := files w - {source_path i} - {output_path i},
         trace := trace w @ [Remove (source_path i), Remove (output_path i),
                    Log INFO (''Cleaned up expired file: '' @ k)]\<rparr>)"
  using assms
  by (simp add: cleanup_one_def os_remove_on_def emit_def logging_def Let_def)





lemma cleanup_one_refused_stay:
  "files w \<inter> refused \<subseteq> files (cleanup_one refused k w)"
  by (cases "map_of (cpp_files w) k") (auto simp add: cleanup_one_absent cleanup_one_cases)






lemma fold_cleanup_one_refused_stay:
  "files w \<inter> refused \<subseteq> files (fold (cleanup_one refused) ks w)"
proof (induction ks arbitrary: w)
  case Nil
  show ?case by simp
next
  case (Cons k ks)
  have "files w \<inter> refused \<subseteq> files (cleanup_one refused k w) \<inter> refused"
    using cleanup_one_refused_stay [of w refused k] by blast
  also have "\<dots> \<subseteq> files (fold (cleanup_one refused) ks (cleanup_one refused k w))"
    by (rule Cons.IH)
  finally show ?case by simp
qed





subsection \<open>The branches of \<open>run_program\<close>\<close>

lemma load_cpp_files_fields:
  "cpp_files (load_cpp_files w) = (case store_file w of Json d \<Rightarrow> d | _ \<Rightarrow> [])"
  "store_file (load_cpp_files w) = store_file w"
  "files (load_cpp_files w) = files w"
  "trace (load_cpp_files w) = trace w @ [Load]"
  by (simp_all add: load_cpp_files_def emit_def)

lemma run_program_not_found:
  assumes "map_of (cpp_files (load_cpp_files w0)) file_id = None"
  shows "run_program ud env file_id ci eo w0 =
    (Inr (RunFailure ''File ID not found.''),
     w0\<lparr>cpp_files := cpp_files (load_cpp_files w0),
        trace := trace w0 @ [Load, Log WARNING (''Attempted to run non-existent file_id: '' @ file_id)]\<rparr>)"
  using assms
  by (simp add: run_program_def Let_def logging_def emit_def load_cpp_files_def)

lemma run_program_expired:
  assumes "map_of (cpp_files (load_cpp_files w0)) file_id = Some info"
    and "now env > expiration info"
  shows "run_program ud env file_id ci eo w0 =
    (let d = AList.delete file_id (cpp_files (load_cpp_files w0));
         msg = Log INFO (''File ID '' @ file_id @ '' has expired. Cleaning up.'')
     in if source_path info \<notin> files w0 then
          (Inl (FileNotFoundError (source_path info)),
           w0\<lparr>cpp_files := d, trace := trace w0 @ [Load, msg, Remove (source_path info)]\<rparr>)
        else if output_path info \<notin> files w0 - {source_path info} then
          (Inl (FileNotFoundError (output_path info)),
           w0\<lparr>cpp_files := d, files := files w0 - {source_path info},
              trace := trace w0 @ [Load, msg, Remove (source_path info), Remove (output_path info)]\<rparr>)
        else
          (Inr (RunFailure ''File ID has expired.''),
           w0\<lparr>cpp_files := d, store_file := Json d,
              files := files w0 - {source_path info} - {output_path info},
              trace := trace w0 @ [Load, msg, Remove (source_path info),
                         Remove (output_path info), Save]\<rparr>))"
  using assms
  by (simp add: run_program_def Let_def logging_def emit_def load_cpp_files_def os_remove_def
      save_cpp_files_def)

lemma run_program_timeout:
  assumes "map_of (cpp_files (load_cpp_files w0)) file_id = Some info"
    and "\<not> now env > expiration info"
    and "run_result env = TimeoutExpired po pe"
  shows "run_program ud env file_id ci eo w0 =
    (Inr (RunFailure ''Execution timed out after 10 seconds.''),
     w0\<lparr>cpp_files := cpp_files (load_cpp_files w0),
        files := (if leaves_gmon env then insert ''gmon.out'' (files w0) else files w0),
        trace := trace w0 @ [Load, Exec [output_path info] ci]\<rparr>)"
  using assms
  by (simp add: run_program_def Let_def emit_def load_cpp_files_def run_artifact_def)

lemma run_program_completed:
  assumes "map_of (cpp_files (load_cpp_files w0)) file_id = Some info"
    and "\<not> now env > expiration info"
    and "run_result env = Completed rr"
  shows "run_program ud env file_id ci eo w0 =
    (Inr (Ran (stdout rr) (stderr rr)
            (case eo of None \<Rightarrow> None
             | Some e \<Rightarrow> Some (concat (ud (splitlines e) (splitlines (stdout rr))
                                  ''expected_output'' ''actual_output'')))
            (total_seconds env)
            (take 500 (str_replace ''  '' '' '' (str_replace ''  '' '' ''
               (str_replace ''  '' '' '' (str_replace ''  '' '' '' (stdout (gprof_result env)))))))),
     w0\<lparr>cpp_files := cpp_files (load_cpp_files w0),
        files := files w0 - {''gmon.out''},
        trace := trace w0 @ [Load, Exec [output_path info] ci,
                   Gprof [''gprof'', output_path info, ''gmon.out'']] @
                 (if leaves_gmon env \<or> ''gmon.out'' \<in> files w0 then [Remove ''gmon.out''] else [])\<rparr>)"
  using assms
  by (auto simp add: run_program_def Let_def emit_def load_cpp_files_def run_artifact_def
      run_gprof_def os_path_exists_def os_remove_def)

lemma run_program_undecodable:
  assumes "map_of (cpp_files (load_cpp_files w0)) file_id = Some info"
    and "\<not> now env > expiration info"
    and "run_result env = Undecodable msg"
  shows "run_program ud env file_id ci eo w0 =
    (Inl (UnicodeDecodeError msg),
     w0\<lparr>cpp_files := cpp_files (load_cpp_files w0),
        files := (if leaves_gmon env then insert ''gmon.out'' (files w0) else files w0),
        trace := trace w0 @ [Load, Exec [output_path info] ci]\<rparr>)"
  using assms
  by (simp add: run_program_def Let_def emit_def load_cpp_files_def run_artifact_def)

lemma run_program_not_started:
  assumes "map_of (cpp_files (load_cpp_files w0)) file_id = Some info"
    and "\<not> now env > expiration info"
    and "run_result env = NotStarted e"
  shows "run_program ud env file_id ci eo w0 =
    (Inl e,
     w0\<lparr>cpp_files := cpp_files (load_cpp_files w0),
        trace := trace w0 @ [Load, Exec [output_path info] ci]\<rparr>)"
  using assms
  by (simp add: run_program_def Let_def emit_def load_cpp_files_def run_artifact_def)

subsection \<open>The two outcomes of \<open>create_program\<close>\<close>

lemma create_program_failure:
  assumes "returncode (compile_result env) \<noteq> 0"
  shows "create_program env content w =
    (Inr (CreateFailure (stderr (compile_result env))),
     w\<lparr>files := files w - {new_source_path env},
       trace := trace w @
         [Makedirs (os_path_join (dirname_file env) ''cpps''),
          Write (new_source_path env) content,
          Compile [''clang++'', ''-pg'', ''-fsanitize=address'', ''-o'',
                   new_output_path env, new_source_path env],
          Log ERROR (''Compilation failed for '' @ uuid4 env @ '': '' @ stderr (compile_result env)),
          Remove (new_source_path env)]\<rparr>)"
  using assms
  by (simp add: create_program_def Let_def emit_def logging_def run_clang_def os_remove_def)

lemma create_program_success:
  assumes "returncode (compile_result env) = 0"
  shows "create_program env content w =
    (let d = AList.update (uuid4 env)
               \<lparr>output_path = new_output_path env, source_path = new_source_path env,
                  expiration = now_plus_1day env\<rparr> (cpp_files w)
     in (Inr (Created (uuid4 env)),
         w\<lparr>cpp_files := d, store_file := Json d,
           files := insert (new_output_path env) (insert (new_source_path env) (files w)),
           trace := trace w @
             [Makedirs (os_path_join (dirname_file env) ''cpps''),
              Write (new_source_path env) content,
              Compile [''clang++'', ''-pg'', ''-fsanitize=address'', ''-o'',
                       new_output_path env, new_source_path env],
              Save,
              Log INFO (''Successfully compiled and stored program with file_id: '' @ uuid4 env)]\<rparr>))"
  using assms
  by (simp add: create_program_def Let_def emit_def logging_def run_clang_def save_cpp_files_def)

lemmas ex_defs = ex_fresh_def ex_stale_def ex_world_def ex_world_orphan_def ex_run_env_def
  ex_timeout_env_def ex_undecodable_env_def ex_differ_def ex_create_env_def ex_create_env_ok_def

subsection \<open>Claim C3: what one sweep of the reaper removes\<close>




subsection \<open>Claim C1: \<open>run_program\<close> checks the requested record only\<close>

text \<open>
  Claim C1 as stated (every expired record is swept at the start of \<open>run_program\<close>)
  fails: a run of \<open>a\<close> at noon leaves the expired record \<open>b\<close> in the store, in memory
  and on disk, and its files in place.
\<close>

theorem run_program_no_sweep_counterexample:
  "map_of (cpp_files (snd (run_program ex_differ ex_run_env ''a'' [] None ex_world))) ''b''
     = Some ex_stale
   \<and> expiration ex_stale < now ex_run_env
   \<and> store_file (snd (run_program ex_differ ex_run_env ''a'' [] None ex_world))
     = Json [(''a'', ex_fresh), (''b'', ex_stale)]
   \<and> files (snd (run_program ex_differ ex_run_env ''a'' [] None ex_world)) = files ex_world"
  by (simp add: run_program_def Let_def load_cpp_files_def emit_def run_artifact_def
      run_gprof_def os_path_exists_def os_remove_def ex_defs)

text \<open>
  Claim C1, as the code has it. Every call of \<open>run_program\<close> starts by reloading the
  store from its file, and runs no sweep: every record other than the requested one is
  in the store after the call as it was loaded, expired or not. When the requested
  record's expiration is strictly before the clock, the record is not in the in-memory
  store after the call, the call does not return a success, and the program is not
  executed.
\<close>

theorem run_program_checks_requested_only:
  "(\<exists>es. trace (snd (run_program ud env file_id ci eo w0)) = trace w0 @ Load # es)
   \<and> (\<forall>k. k \<noteq> file_id \<longrightarrow>
         map_of (cpp_files (snd (run_program ud env file_id ci eo w0))) k
           = map_of (cpp_files (load_cpp_files w0)) k)
   \<and> (\<forall>info. map_of (cpp_files (load_cpp_files w0)) file_id = Some info
               \<and> expiration info < now env \<longrightarrow>
         map_of (cpp_files (snd (run_program ud env file_id ci eo w0))) file_id = None
       \<and> (\<forall>out err d secs p. fst (run_program ud env file_id ci eo w0) \<noteq> Inr (Ran out err d secs p))
       \<and> (\<exists>es. trace (snd (run_program ud env file_id ci eo w0)) = trace w0 @ es
               \<and> (\<forall>a i. Exec a i \<notin> set es)))"
proof (cases "map_of (cpp_files (load_cpp_files w0)) file_id")
  case None
  then show ?thesis
    by (simp add: run_program_not_found)
next
  case (Some info)
  show ?thesis
  proof (cases "expiration info < now env")
    case True
    with Some show ?thesis
      by (simp add: run_program_expired Let_def delete_conv)
  next
    case False
    show ?thesis
    proof (cases "run_result env")
      case (TimeoutExpired po pe)
      with Some False show ?thesis
        by (simp add: run_program_timeout)
    next
      case (Completed rr)
      with Some False show ?thesis
        by (simp add: run_program_completed)
    next
      case (Undecodable msg)
      with Some False show ?thesis
        by (simp add: run_program_undecodable)
    next
      case (NotStarted e)
      with Some False show ?thesis
        by (simp add: run_program_not_started)
    qed
  qed
qed

text \<open>A run of the expired \<open>b\<close> drops \<open>b\<close> and keeps \<open>a\<close>.\<close>

theorem run_program_checks_requested_only_witness:
  "map_of (cpp_files (load_cpp_files ex_world)) ''b'' = Some ex_stale
   \<and> expiration ex_stale < now ex_run_env
   \<and> map_of (cpp_files (snd (run_program ex_differ ex_run_env ''b'' [] None ex_world))) ''b'' = None
   \<and> map_of (cpp_files (snd (run_program ex_differ ex_run_env ''b'' [] None ex_world))) ''a''
       = Some ex_fresh"
proof -
  have h: "map_of (cpp_files (load_cpp_files ex_world)) ''b'' = Some ex_stale
           \<and> expiration ex_stale < now ex_run_env"
    by (simp add: load_cpp_files_def emit_def ex_defs)
  have a: "map_of (cpp_files (load_cpp_files ex_world)) ''a'' = Some ex_fresh"
    by (simp add: load_cpp_files_def emit_def ex_defs)
  from run_program_checks_requested_only [of ex_differ ex_run_env "''b''" "[]" None ex_world] h a
  show ?thesis by simp
qed

subsection \<open>Claim C2: a failing deletion during lazy expiry\<close>

text \<open>
  Claim C2 says that a deletion that fails is logged and that the operation goes on to
  its structured result. The reaper does so (\<open>cleanup_one\<close> catches the exception and
  logs it), the lazy expiry of \<open>run_program\<close> does not: run on the expired \<open>b\<close> whose
  source file is gone, the call ends with the exception of \<open>os.remove\<close>, after the
  record has left the in-memory store and before anything is saved; the store file still
  holds \<open>b\<close>, the output file of \<open>b\<close> is still there, and nothing was logged about the
  error.
\<close>

theorem run_program_expired_missing_source_raises:
  "run_program ex_differ ex_run_env ''b'' [] None ex_world_orphan =
     (Inl (FileNotFoundError ''/srv/cpps/b.cpp''),
      ex_world_orphan\<lparr>cpp_files := [(''a'', ex_fresh)],
        trace := [Load, Log INFO ''File ID b has expired. Cleaning up.'',
                  Remove ''/srv/cpps/b.cpp'']\<rparr>)
   \<and> store_file ex_world_orphan = Json [(''a'', ex_fresh), (''b'', ex_stale)]
   \<and> ''/srv/cpps/b'' \<in> files ex_world_orphan"
  by (simp add: run_program_def Let_def load_cpp_files_def emit_def logging_def os_remove_def
      ex_defs)

subsection \<open>Claim C4: a run that times out\<close>

text \<open>
  Claim C4. When the requested record is present and not expired and the program
  exceeds the timeout, \<open>run_program\<close> returns the timeout failure, which carries the
  message only (whatever had been captured of the output before the kill) and differs
  from the not-found and the expired failure. The record is still in the store, the
  store file is as it was, every file that existed still exists, and a later call for
  the same id within the validity window runs the program and returns its output.
\<close>

theorem run_program_timeout_keeps_artifact:
  assumes "map_of (cpp_files (load_cpp_files w0)) file_id = Some info"
    and "\<not> expiration info < now env"
    and "run_result env = TimeoutExpired partial_out partial_err"
  shows "fst (run_program ud env file_id ci eo w0)
           = Inr (RunFailure ''Execution timed out after 10 seconds.'')
       \<and> fst (run_program ud env file_id ci eo w0) \<noteq> Inr (RunFailure ''File ID not found.'')
       \<and> fst (run_program ud env file_id ci eo w0) \<noteq> Inr (RunFailure ''File ID has expired.'')
       \<and> map_of (cpp_files (snd (run_program ud env file_id ci eo w0))) file_id = Some info
       \<and> store_file (snd (run_program ud env file_id ci eo w0)) = store_file w0
       \<and> files w0 \<subseteq> files (snd (run_program ud env file_id ci eo w0))
       \<and> (\<forall>env2 ci2 eo2 rr.
             \<not> expiration info < now env2 \<and> run_result env2 = Completed rr \<longrightarrow>
             (\<exists>d p. fst (run_program ud env2 file_id ci2 eo2
                            (snd (run_program ud env file_id ci eo w0)))
                      = Inr (Ran (stdout rr) (stderr rr) d (total_seconds env2) p)))"
proof -
  let ?w = "snd (run_program ud env file_id ci eo w0)"
  note r = run_program_timeout [OF assms, of ud ci eo]
  have again: "map_of (cpp_files (load_cpp_files ?w)) file_id = Some info"
    using assms(1) by (simp add: r load_cpp_files_fields)
  have later: "\<exists>d p. fst (run_program ud env2 file_id ci2 eo2 ?w)
                  = Inr (Ran (stdout rr) (stderr rr) d (total_seconds env2) p)"
    if "\<not> expiration info < now env2" "run_result env2 = Completed rr" for env2 ci2 eo2 rr
    using run_program_completed [OF again that, of ud ci2 eo2] by simp
  have first: "fst (run_program ud env file_id ci eo w0)
           = Inr (RunFailure ''Execution timed out after 10 seconds.'')"
    by (simp add: r)
  have store: "map_of (cpp_files ?w) file_id = Some info" "store_file ?w = store_file w0"
    "files w0 \<subseteq> files ?w"
    using assms(1) by (auto simp add: r)
  from first store later show ?thesis by simp
qed

text \<open>The run of \<open>a\<close> that is killed at the timeout.\<close>

theorem run_program_timeout_keeps_artifact_witness:
  "map_of (cpp_files (load_cpp_files ex_world)) ''a'' = Some ex_fresh
   \<and> \<not> expiration ex_fresh < now ex_timeout_env
   \<and> run_result ex_timeout_env = TimeoutExpired (Some ''4'') None
   \<and> fst (run_program ex_differ ex_timeout_env ''a'' [] None ex_world)
       = Inr (RunFailure ''Execution timed out after 10 seconds.'')
   \<and> map_of (cpp_files (snd (run_program ex_differ ex_timeout_env ''a'' [] None ex_world))) ''a''
       = Some ex_fresh
   \<and> \<not> expiration ex_fresh < now ex_run_env
   \<and> run_result ex_run_env = Completed \<lparr>returncode = 1, stdout = ''4\<newline>2\<newline>'', stderr = ''boom''\<rparr>
   \<and> (\<exists>d p. fst (run_program ex_differ ex_run_env ''a'' [] None
                    (snd (run_program ex_differ ex_timeout_env ''a'' [] None ex_world)))
              = Inr (Ran ''4\<newline>2\<newline>'' ''boom'' d (total_seconds ex_run_env) p))"
proof -
  have h1: "map_of (cpp_files (load_cpp_files ex_world)) ''a'' = Some ex_fresh"
    by (simp add: load_cpp_files_def emit_def ex_defs)
  have h2: "\<not> expiration ex_fresh < now ex_timeout_env"
    by (simp add: ex_defs)
  have h3: "run_result ex_timeout_env = TimeoutExpired (Some ''4'') None"
    by (simp add: ex_defs)
  have h4: "\<not> expiration ex_fresh < now ex_run_env"
    by (simp add: ex_defs)
  have h5: "run_result ex_run_env = Completed \<lparr>returncode = 1, stdout = ''4\<newline>2\<newline>'', stderr = ''boom''\<rparr>"
    by (simp add: ex_defs)
  note t = run_program_timeout_keeps_artifact [OF h1 h2 h3, of ex_differ "[]" None]
  from t have a: "fst (run_program ex_differ ex_timeout_env ''a'' [] None ex_world)
       = Inr (RunFailure ''Execution timed out after 10 seconds.'')"
    and b: "map_of (cpp_files (snd (run_program ex_differ ex_timeout_env ''a'' [] None ex_world))) ''a''
       = Some ex_fresh"
    by blast+
  from t h4 h5 have "\<exists>d p. fst (run_program ex_differ ex_run_env ''a'' [] None
                    (snd (run_program ex_differ ex_timeout_env ''a'' [] None ex_world)))
              = Inr (Ran (stdout \<lparr>returncode = 1, stdout = ''4\<newline>2\<newline>'', stderr = ''boom''\<rparr>)
                         (stderr \<lparr>returncode = 1, stdout = ''4\<newline>2\<newline>'', stderr = ''boom''\<rparr>)
                         d (total_seconds ex_run_env) p)"
    by blast
  then have c: "\<exists>d p. fst (run_program ex_differ ex_run_env ''a'' [] None
                    (snd (run_program ex_differ ex_timeout_env ''a'' [] None ex_world)))
              = Inr (Ran ''4\<newline>2\<newline>'' ''boom'' d (total_seconds ex_run_env) p)"
    by simp
  from h1 h2 h3 a b h4 h5 c show ?thesis by blast
qed

subsection \<open>Claim C10: the timeout branch cleans nothing up\<close>

text \<open>
  Claim C10. In a call that times out, the effects of \<open>run_program\<close> are the reload of
  the store and the execution of the program, and nothing after that: no file is
  removed, gprof is not called, nothing is saved. A \<open>gmon.out\<close> that the killed run left
  is still there, while on the path of a completed run \<open>gmon.out\<close> never survives. The
  in-memory store is the one just loaded, the store file is untouched, and the result is
  the timeout failure.
\<close>

theorem run_program_timeout_no_cleanup:
  assumes "map_of (cpp_files (load_cpp_files w0)) file_id = Some info"
    and "\<not> expiration info < now env"
    and "run_result env = TimeoutExpired partial_out partial_err"
  shows "fst (run_program ud env file_id ci eo w0)
           = Inr (RunFailure ''Execution timed out after 10 seconds.'')
       \<and> trace (snd (run_program ud env file_id ci eo w0))
           = trace w0 @ [Load, Exec [output_path info] ci]
       \<and> files (snd (run_program ud env file_id ci eo w0))
           = (if leaves_gmon env then insert ''gmon.out'' (files w0) else files w0)
       \<and> (leaves_gmon env \<longrightarrow> ''gmon.out'' \<in> files (snd (run_program ud env file_id ci eo w0)))
       \<and> cpp_files (snd (run_program ud env file_id ci eo w0)) = cpp_files (load_cpp_files w0)
       \<and> store_file (snd (run_program ud env file_id ci eo w0)) = store_file w0
       \<and> (\<forall>rr. ''gmon.out'' \<notin> files (snd (run_program ud (env\<lparr>run_result := Completed rr\<rparr>)
                                           file_id ci eo w0)))"
proof -
  note r = run_program_timeout [OF assms, of ud ci eo]
  have other: "''gmon.out'' \<notin> files (snd (run_program ud (env\<lparr>run_result := Completed rr\<rparr>)
                                           file_id ci eo w0))" for rr
    using assms(1,2)
    by (simp add: run_program_completed [where rr = rr and info = info])
  from other show ?thesis by (simp add: r)
qed

text \<open>The killed run of \<open>a\<close> leaves \<open>gmon.out\<close> behind.\<close>

theorem run_program_timeout_no_cleanup_witness:
  "map_of (cpp_files (load_cpp_files ex_world)) ''a'' = Some ex_fresh
   \<and> \<not> expiration ex_fresh < now ex_timeout_env
   \<and> run_result ex_timeout_env = TimeoutExpired (Some ''4'') None
   \<and> trace (snd (run_program ex_differ ex_timeout_env ''a'' [] None ex_world))
       = [Load, Exec [''/srv/cpps/a''] []]
   \<and> ''gmon.out'' \<in> files (snd (run_program ex_differ ex_timeout_env ''a'' [] None ex_world))"
proof -
  have h1: "map_of (cpp_files (load_cpp_files ex_world)) ''a'' = Some ex_fresh"
    by (simp add: load_cpp_files_def emit_def ex_defs)
  have h2: "\<not> expiration ex_fresh < now ex_timeout_env"
    by (simp add: ex_defs)
  have h3: "run_result ex_timeout_env = TimeoutExpired (Some ''4'') None"
    by (simp add: ex_defs)
  from run_program_timeout_no_cleanup [OF h1 h2 h3, of ex_differ "[]" None] h1 h2 h3
  show ?thesis by (simp add: ex_defs)
qed

subsection \<open>Claim C5: what a program that completes makes of the call\<close>




subsection \<open>Claim C6: a build that does not compile\<close>

text \<open>
  Claim C6. When the compiler exits with a nonzero status, \<open>create_program\<close> returns
  the failure with the compiler's \<open>stderr\<close> as it is. The source file of the attempt is
  removed and does not exist afterwards; the only change to the files is that removal, so
  an output path that did not exist before does not exist after. The in-memory store and
  the store file are as before and nothing is saved; and when the minted id was not in
  the store file, a later \<open>run_program\<close> on it reports that the id was not found.
\<close>

theorem create_program_compile_error:
  assumes "returncode (compile_result env) \<noteq> 0"
  shows "fst (create_program env content w) = Inr (CreateFailure (stderr (compile_result env)))
       \<and> cpp_files (snd (create_program env content w)) = cpp_files w
       \<and> store_file (snd (create_program env content w)) = store_file w
       \<and> (\<exists>es. trace (snd (create_program env content w)) = trace w @ es
              \<and> Save \<notin> set es \<and> Remove (new_source_path env) \<in> set es)
       \<and> files (snd (create_program env content w)) = files w - {new_source_path env}
       \<and> new_source_path env \<notin> files (snd (create_program env content w))
       \<and> (new_output_path env \<notin> files w \<longrightarrow>
            new_output_path env \<notin> files (snd (create_program env content w)))
       \<and> (\<forall>ud renv ci eo. map_of (cpp_files (load_cpp_files w)) (uuid4 env) = None \<longrightarrow>
            fst (run_program ud renv (uuid4 env) ci eo (snd (create_program env content w)))
              = Inr (RunFailure ''File ID not found.''))"
proof -
  note r = create_program_failure [OF assms, of content w]
  let ?w = "snd (create_program env content w)"
  have "load_cpp_files ?w = (load_cpp_files w)\<lparr>files := files ?w, trace := trace ?w @ [Load]\<rparr>"
    by (simp add: r load_cpp_files_def emit_def)
  then have "cpp_files (load_cpp_files ?w) = cpp_files (load_cpp_files w)" by simp
  then have nf: "fst (run_program ud renv (uuid4 env) ci eo ?w) = Inr (RunFailure ''File ID not found.'')"
    if "map_of (cpp_files (load_cpp_files w)) (uuid4 env) = None" for ud renv ci eo
    using that by (simp add: run_program_not_found)
  from nf show ?thesis by (simp add: r)
qed

text \<open>The build of the examples whose compiler reports an error.\<close>

theorem create_program_compile_error_witness:
  "returncode (compile_result ex_create_env) \<noteq> 0
   \<and> fst (create_program ex_create_env ''int main(){'' ex_world)
       = Inr (CreateFailure ''c.cpp:1:1: error'')
   \<and> store_file (snd (create_program ex_create_env ''int main(){'' ex_world))
       = Json [(''a'', ex_fresh), (''b'', ex_stale)]
   \<and> ''/srv/cpps/c.cpp'' \<notin> files (snd (create_program ex_create_env ''int main(){'' ex_world))
   \<and> ''/srv/cpps/c'' \<notin> files ex_world
   \<and> ''/srv/cpps/c'' \<notin> files (snd (create_program ex_create_env ''int main(){'' ex_world))
   \<and> map_of (cpp_files (load_cpp_files ex_world)) ''c'' = None
   \<and> fst (run_program ex_differ ex_run_env ''c'' [] None
            (snd (create_program ex_create_env ''int main(){'' ex_world)))
       = Inr (RunFailure ''File ID not found.'')"
proof -
  have h: "returncode (compile_result ex_create_env) \<noteq> 0"
    by (simp add: ex_defs)
  have p: "new_source_path ex_create_env = ''/srv/cpps/c.cpp''"
    "new_output_path ex_create_env = ''/srv/cpps/c''"
    "uuid4 ex_create_env = ''c''"
    by (simp_all add: new_source_path_def new_output_path_def os_path_join_def ex_defs)
  have f: "''/srv/cpps/c'' \<notin> files ex_world" by (simp add: ex_defs)
  have n: "map_of (cpp_files (load_cpp_files ex_world)) ''c'' = None"
    by (simp add: load_cpp_files_def emit_def ex_defs)
  from create_program_compile_error [OF h, of "''int main(){''" ex_world] h p f n
  show ?thesis by (simp add: ex_defs)
qed

subsection \<open>Claim C7: the diff\<close>

text \<open>
  Claim C7. In a successful run, \<open>diff\<close> is \<open>None\<close> when no \<open>expected_output\<close> was
  given; when one was given, it is the concatenation of the lines that the line-diff
  function yields for the lines of \<open>expected_output\<close> and the lines of the captured
  \<open>stdout\<close>, under the labels \<open>expected_output\<close> and \<open>actual_output\<close>; and when
  \<open>expected_output\<close> equals the captured \<open>stdout\<close> it is the empty string, for every
  line-diff function that yields nothing on two equal inputs (as
  \<open>difflib.unified_diff\<close> does).
\<close>

theorem run_program_diff:
  assumes "map_of (cpp_files (load_cpp_files w0)) file_id = Some info"
    and "\<not> expiration info < now env"
    and "run_result env = Completed rr"
  shows "\<exists>r. fst (run_program ud env file_id ci eo w0) = Inr r
       \<and> (eo = None \<longrightarrow> diff r = None)
       \<and> (\<forall>e. eo = Some e \<longrightarrow>
             diff r = Some (concat (ud (splitlines e) (splitlines (stdout rr))
                                     ''expected_output'' ''actual_output'')))
       \<and> ((\<forall>a fromfile tofile. ud a a fromfile tofile = []) \<and> eo = Some (stdout rr) \<longrightarrow>
             diff r = Some [])"
  by (auto simp add: run_program_completed [OF assms])

text \<open>The run of \<open>a\<close> with the expected output equal to what the program prints.\<close>

theorem run_program_diff_witness:
  "map_of (cpp_files (load_cpp_files ex_world)) ''a'' = Some ex_fresh
   \<and> \<not> expiration ex_fresh < now ex_run_env
   \<and> run_result ex_run_env = Completed \<lparr>returncode = 1, stdout = ''4\<newline>2\<newline>'', stderr = ''boom''\<rparr>
   \<and> (\<forall>a fromfile tofile. ex_differ a a fromfile tofile = [])
   \<and> (\<exists>r. fst (run_program ex_differ ex_run_env ''a'' [] (Some ''4\<newline>2\<newline>'') ex_world) = Inr r
          \<and> diff r = Some [])
   \<and> (\<exists>r. fst (run_program ex_differ ex_run_env ''a'' [] None ex_world) = Inr r
          \<and> diff r = None)
   \<and> (\<exists>r. fst (run_program ex_differ ex_run_env ''a'' [] (Some ''4\<newline>3'') ex_world) = Inr r
          \<and> diff r = Some (''--- expected_output\<newline>+++ actual_output\<newline>''
                            @ ''-4\<newline>-3+4\<newline>+2\<newline>''))"
proof -
  have h1: "map_of (cpp_files (load_cpp_files ex_world)) ''a'' = Some ex_fresh"
    by (simp add: load_cpp_files_def emit_def ex_defs)
  have h2: "\<not> expiration ex_fresh < now ex_run_env"
    by (simp add: ex_defs)
  have h3: "run_result ex_run_env = Completed \<lparr>returncode = 1, stdout = ''4\<newline>2\<newline>'', stderr = ''boom''\<rparr>"
    by (simp add: ex_defs)
  have h4: "\<forall>a fromfile tofile. ex_differ a a fromfile tofile = []"
    by (simp add: ex_differ_def)
  from run_program_diff [OF h1 h2 h3, of ex_differ "[]" "Some ''4\<newline>2\<newline>''"] h4
  have a: "\<exists>r. fst (run_program ex_differ ex_run_env ''a'' [] (Some ''4\<newline>2\<newline>'') ex_world) = Inr r
          \<and> diff r = Some []"
    by auto
  from run_program_diff [OF h1 h2 h3, of ex_differ "[]" None]
  have b: "\<exists>r. fst (run_program ex_differ ex_run_env ''a'' [] None ex_world) = Inr r
          \<and> diff r = None"
    by auto
  have l: "concat (ex_differ (splitlines ''4\<newline>3'') (splitlines ''4\<newline>2\<newline>'')
                     ''expected_output'' ''actual_output'')
           = ''--- expected_output\<newline>+++ actual_output\<newline>'' @ ''-4\<newline>-3+4\<newline>+2\<newline>''"
    by (simp add: ex_differ_def splitlines_def linebreak_def)
  from run_program_diff [OF h1 h2 h3, of ex_differ "[]" "Some ''4\<newline>3''"]
  have "\<exists>r. fst (run_program ex_differ ex_run_env ''a'' [] (Some ''4\<newline>3'') ex_world) = Inr r
          \<and> diff r = Some (concat (ex_differ (splitlines ''4\<newline>3'')
                (splitlines (stdout \<lparr>returncode = 1, stdout = ''4\<newline>2\<newline>'', stderr = ''boom''\<rparr>))
                ''expected_output'' ''actual_output''))"
    by auto
  then have c: "\<exists>r. fst (run_program ex_differ ex_run_env ''a'' [] (Some ''4\<newline>3'') ex_world) = Inr r
          \<and> diff r = Some (''--- expected_output\<newline>+++ actual_output\<newline>''
                            @ ''-4\<newline>-3+4\<newline>+2\<newline>'')"
    using l by simp
  from h1 h2 h3 h4 a b c show ?thesis by blast
qed

subsection \<open>Claim C8: the profiling report\<close>

text \<open>
  Claim C8. The \<open>profiling_report\<close> of every success of \<open>run_program\<close> is the \<open>stdout\<close>
  of gprof after four passes of \<open>replace("  ", " ")\<close>, cut to its first 500 characters
  after the four passes.
\<close>

theorem run_program_profiling_report:
  assumes "fst (run_program ud env file_id ci eo w0) = Inr (Ran out err d secs p)"
  shows "p = take 500 (str_replace ''  '' '' '' (str_replace ''  '' '' ''
               (str_replace ''  '' '' '' (str_replace ''  '' '' '' (stdout (gprof_result env))))))
       \<and> length p \<le> 500"
proof (cases "map_of (cpp_files (load_cpp_files w0)) file_id")
  case None
  with assms show ?thesis
    by (simp add: run_program_not_found)
next
  case (Some info)
  show ?thesis
  proof (cases "expiration info < now env")
    case True
    with Some assms show ?thesis
      by (simp add: run_program_expired Let_def split: if_splits)
  next
    case False
    show ?thesis
    proof (cases "run_result env")
      case (TimeoutExpired po pe)
      with Some False assms show ?thesis
        by (simp add: run_program_timeout)
    next
      case (Completed rr)
      with Some False assms show ?thesis
        by (auto simp add: run_program_completed)
    next
      case (Undecodable msg)
      with Some False assms show ?thesis
        by (simp add: run_program_undecodable)
    next
      case (NotStarted e)
      with Some False assms show ?thesis
        by (simp add: run_program_not_started)
    qed
  qed
qed

text \<open>Three spaces in the report of gprof become one.\<close>

theorem run_program_profiling_report_witness:
  "fst (run_program ex_differ ex_run_env ''a'' [] None ex_world)
     = Inr (Ran ''4\<newline>2\<newline>'' ''boom'' None (total_seconds ex_run_env) ''Flat profile:'')
   \<and> stdout (gprof_result ex_run_env) = ''Flat   profile:''
   \<and> ''Flat profile:'' = take 500 (str_replace ''  '' '' '' (str_replace ''  '' '' ''
               (str_replace ''  '' '' '' (str_replace ''  '' '' '' (stdout (gprof_result ex_run_env))))))"
proof -
  have h: "fst (run_program ex_differ ex_run_env ''a'' [] None ex_world)
     = Inr (Ran ''4\<newline>2\<newline>'' ''boom'' None (total_seconds ex_run_env) ''Flat profile:'')"
    by (simp add: run_program_def Let_def load_cpp_files_def emit_def run_artifact_def
      run_gprof_def os_path_exists_def os_remove_def ex_defs)
  have g: "stdout (gprof_result ex_run_env) = ''Flat   profile:''"
    by (simp add: ex_defs)
  from run_program_profiling_report [OF h] h g show ?thesis by blast
qed

text \<open>No path under \<open>cpps\<close> is the path \<open>gmon.out\<close> of the working directory.\<close>

lemma cpps_dir_shape:
  "os_path_join d ''cpps'' \<noteq> [] \<and> last (os_path_join d ''cpps'') = CHR ''s''
   \<and> CHR ''c'' \<in> set (os_path_join d ''cpps'')"
  by (simp add: os_path_join_def)

lemma under_cpps_not_gmon: "os_path_join (os_path_join d ''cpps'') x \<noteq> ''gmon.out''"
proof (cases "x \<noteq> [] \<and> hd x = CHR ''/''")
  case True
  then have "os_path_join (os_path_join d ''cpps'') x = x"
    by (simp add: os_path_join_def)
  moreover from True have "x \<noteq> ''gmon.out''" by auto
  ultimately show ?thesis by simp
next
  case False
  let ?a = "os_path_join d ''cpps''"
  from False cpps_dir_shape [of d]
  have "os_path_join ?a x = ?a @ ''/'' @ x"
    unfolding os_path_join_def [of ?a x] by auto
  moreover have "CHR ''c'' \<in> set (?a @ ''/'' @ x)"
    using cpps_dir_shape [of d] by simp
  moreover have "CHR ''c'' \<notin> set ''gmon.out''" by simp
  ultimately show ?thesis by metis
qed

lemma new_paths_not_gmon:
  "new_source_path env \<noteq> ''gmon.out''" "new_output_path env \<noteq> ''gmon.out''"
  by (simp_all add: new_source_path_def new_output_path_def under_cpps_not_gmon)

subsection \<open>Claim C9: build, then run\<close>

text \<open>
  Claim C9. \<open>create_and_run_program\<close> builds first. When the build fails it returns
  the failure dictionary of the build, in the world the build left: the store is not
  reloaded and no program is executed, so \<open>run_program\<close> was not entered. When the build
  succeeds it calls \<open>run_program\<close> with the id just minted and the same input and
  expected output, returns both dictionaries, and ends in the world that \<open>run_program\<close>
  left: nothing is deleted after the run. After a build and a completed run within the
  validity window, the record is in the store and in the store file and both backing
  files exist.
\<close>

theorem create_and_run_program_sequence:
  "(returncode (compile_result cenv) \<noteq> 0 \<longrightarrow>
      create_and_run_program ud cenv renv content ci eo w
        = (Inr (OnlyCreate (CreateFailure (stderr (compile_result cenv)))),
           snd (create_program cenv content w))
    \<and> (\<exists>es. trace (snd (create_and_run_program ud cenv renv content ci eo w)) = trace w @ es
           \<and> Load \<notin> set es \<and> (\<forall>a i. Exec a i \<notin> set es)))
   \<and> (returncode (compile_result cenv) = 0 \<longrightarrow>
        fst (create_program cenv content w) = Inr (Created (uuid4 cenv))
      \<and> snd (create_and_run_program ud cenv renv content ci eo w)
          = snd (run_program ud renv (uuid4 cenv) ci eo (snd (create_program cenv content w)))
      \<and> fst (create_and_run_program ud cenv renv content ci eo w)
          = (case fst (run_program ud renv (uuid4 cenv) ci eo (snd (create_program cenv content w)))
             of Inl e \<Rightarrow> Inl e
              | Inr run_response \<Rightarrow> Inr (Both (Created (uuid4 cenv)) run_response)))
   \<and> (\<forall>rr. returncode (compile_result cenv) = 0 \<and> \<not> now_plus_1day cenv < now renv
            \<and> run_result renv = Completed rr \<longrightarrow>
        (\<exists>d p. fst (create_and_run_program ud cenv renv content ci eo w)
                 = Inr (Both (Created (uuid4 cenv))
                         (Ran (stdout rr) (stderr rr) d (total_seconds renv) p)))
      \<and> map_of (cpp_files (snd (create_and_run_program ud cenv renv content ci eo w))) (uuid4 cenv)
          = Some \<lparr>output_path = new_output_path cenv, source_path = new_source_path cenv,
                  expiration = now_plus_1day cenv\<rparr>
      \<and> store_file (snd (create_and_run_program ud cenv renv content ci eo w))
          = Json (cpp_files (snd (create_and_run_program ud cenv renv content ci eo w)))
      \<and> new_output_path cenv \<in> files (snd (create_and_run_program ud cenv renv content ci eo w))
      \<and> new_source_path cenv \<in> files (snd (create_and_run_program ud cenv renv content ci eo w)))"
proof -
  let ?c = "create_program cenv content w"
  let ?info = "\<lparr>output_path = new_output_path cenv, source_path = new_source_path cenv,
                  expiration = now_plus_1day cenv\<rparr>"
  have fail: "create_and_run_program ud cenv renv content ci eo w
        = (Inr (OnlyCreate (CreateFailure (stderr (compile_result cenv)))), snd ?c)
    \<and> (\<exists>es. trace (snd (create_and_run_program ud cenv renv content ci eo w)) = trace w @ es
           \<and> Load \<notin> set es \<and> (\<forall>a i. Exec a i \<notin> set es))"
    if h: "returncode (compile_result cenv) \<noteq> 0"
    by (simp add: create_and_run_program_def create_program_failure [OF h])
  have ok: "fst ?c = Inr (Created (uuid4 cenv))
      \<and> snd (create_and_run_program ud cenv renv content ci eo w)
          = snd (run_program ud renv (uuid4 cenv) ci eo (snd ?c))
      \<and> fst (create_and_run_program ud cenv renv content ci eo w)
          = (case fst (run_program ud renv (uuid4 cenv) ci eo (snd ?c))
             of Inl e \<Rightarrow> Inl e
              | Inr run_response \<Rightarrow> Inr (Both (Created (uuid4 cenv)) run_response))"
    if h: "returncode (compile_result cenv) = 0"
    by (simp add: create_and_run_program_def create_program_success [OF h] Let_def
        split: prod.splits sum.splits)
  have kept: "(\<exists>d p. fst (create_and_run_program ud cenv renv content ci eo w)
                 = Inr (Both (Created (uuid4 cenv))
                         (Ran (stdout rr) (stderr rr) d (total_seconds renv) p)))
      \<and> map_of (cpp_files (snd (create_and_run_program ud cenv renv content ci eo w))) (uuid4 cenv)
          = Some ?info
      \<and> store_file (snd (create_and_run_program ud cenv renv content ci eo w))
          = Json (cpp_files (snd (create_and_run_program ud cenv renv content ci eo w)))
      \<and> new_output_path cenv \<in> files (snd (create_and_run_program ud cenv renv content ci eo w))
      \<and> new_source_path cenv \<in> files (snd (create_and_run_program ud cenv renv content ci eo w))"
    if h: "returncode (compile_result cenv) = 0" and fresh: "\<not> now_plus_1day cenv < now renv"
      and fin: "run_result renv = Completed rr" for rr
  proof -
    let ?w1 = "snd ?c"
    let ?d = "AList.update (uuid4 cenv) ?info (cpp_files w)"
    have w1: "cpp_files ?w1 = ?d" "store_file ?w1 = Json ?d"
      "files ?w1 = insert (new_output_path cenv) (insert (new_source_path cenv) (files w))"
      by (simp_all add: create_program_success [OF h] Let_def)
    have ld: "cpp_files (load_cpp_files ?w1) = ?d"
      by (simp add: load_cpp_files_fields w1)
    have present: "map_of (cpp_files (load_cpp_files ?w1)) (uuid4 cenv) = Some ?info"
      by (simp add: ld update_conv')
    have fresh': "\<not> expiration ?info < now renv" using fresh by simp
    note r = run_program_completed [OF present fresh' fin, of ud ci eo]
    from ok [OF h] have
      s: "snd (create_and_run_program ud cenv renv content ci eo w)
            = snd (run_program ud renv (uuid4 cenv) ci eo ?w1)"
      and f: "fst (create_and_run_program ud cenv renv content ci eo w)
          = (case fst (run_program ud renv (uuid4 cenv) ci eo ?w1)
             of Inl e \<Rightarrow> Inl e
              | Inr run_response \<Rightarrow> Inr (Both (Created (uuid4 cenv)) run_response))"
      by simp_all
    show ?thesis
      unfolding s f
      using new_paths_not_gmon [of cenv]
      by (simp add: r ld w1 update_conv')
  qed
  from fail ok kept show ?thesis by blast
qed

text \<open>The failing build and the successful build of the examples.\<close>

theorem create_and_run_program_sequence_witness:
  "returncode (compile_result ex_create_env) \<noteq> 0
   \<and> create_and_run_program ex_differ ex_create_env ex_run_env ''int main(){'' [] None ex_world
       = (Inr (OnlyCreate (CreateFailure ''c.cpp:1:1: error'')),
          snd (create_program ex_create_env ''int main(){'' ex_world))
   \<and> returncode (compile_result ex_create_env_ok) = 0
   \<and> \<not> now_plus_1day ex_create_env_ok < now ex_run_env
   \<and> run_result ex_run_env = Completed \<lparr>returncode = 1, stdout = ''4\<newline>2\<newline>'', stderr = ''boom''\<rparr>
   \<and> ''/srv/cpps/c'' \<in> files (snd (create_and_run_program ex_differ ex_create_env_ok ex_run_env
                                       ''int main(){}'' [] None ex_world))"
proof -
  have h1: "returncode (compile_result ex_create_env) \<noteq> 0"
    and e1: "stderr (compile_result ex_create_env) = ''c.cpp:1:1: error''"
    by (simp_all add: ex_defs)
  have h2: "returncode (compile_result ex_create_env_ok) = 0"
    and h3: "\<not> now_plus_1day ex_create_env_ok < now ex_run_env"
    and h4: "run_result ex_run_env = Completed \<lparr>returncode = 1, stdout = ''4\<newline>2\<newline>'', stderr = ''boom''\<rparr>"
    and p: "new_output_path ex_create_env_ok = ''/srv/cpps/c''"
    by (simp_all add: ex_defs new_output_path_def os_path_join_def)
  from create_and_run_program_sequence
         [of ex_create_env ex_differ ex_run_env "''int main(){''" "[]" None ex_world] h1 e1
  have a: "create_and_run_program ex_differ ex_create_env ex_run_env ''int main(){'' [] None ex_world
       = (Inr (OnlyCreate (CreateFailure ''c.cpp:1:1: error'')),
          snd (create_program ex_create_env ''int main(){'' ex_world))"
    by simp
  from create_and_run_program_sequence
         [of ex_create_env_ok ex_differ ex_run_env "''int main(){}''" "[]" None ex_world] h2 h3 h4
  have "new_output_path ex_create_env_ok
          \<in> files (snd (create_and_run_program ex_differ ex_create_env_ok ex_run_env
                           ''int main(){}'' [] None ex_world))"
    by blast
  then have b: "''/srv/cpps/c'' \<in> files (snd (create_and_run_program ex_differ ex_create_env_ok ex_run_env
                                       ''int main(){}'' [] None ex_world))"
    unfolding p .
  from h1 a h2 h3 h4 b show ?thesis by blast
qed

end
